theory Spec2Isabelle
  imports Main
begin

section \<open>Strings and numbers as the JavaScript source prints them\<close>

text \<open>
  The source is \<^verbatim>\<open>src/file/express.js\<close>. Strings are \<open>string\<close> (byte lists), the
  numbers that reach a string (a preset height, \<^verbatim>\<open>Date.now()\<close>, the random suffix, an
  exit code) are integers and are printed in decimal, as a template literal or
  \<^verbatim>\<open>'...' + code\<close> prints an integral JavaScript number.
\<close>

definition digit_char :: "nat \<Rightarrow> char" where
  "digit_char d = ''0123456789'' ! d"

function show_nat :: "nat \<Rightarrow> string" where
  "show_nat n = (if n < 10 then [digit_char n] else show_nat (n div 10) @ [digit_char (n mod 10)])"
  by pat_completeness auto
termination
  by (relation "measure (\<lambda>n. n)") auto

declare show_nat.simps [simp del]

definition show_int :: "int \<Rightarrow> string" where
  "show_int i = (if i < 0 then CHR ''-'' # show_nat (nat (- i)) else show_nat (nat i))"

text \<open>
  The exit code handed to a \<^verbatim>\<open>close\<close> listener is a number, or \<^verbatim>\<open>null\<close> when the
  process was ended by a signal; \<^verbatim>\<open>'' + null\<close> is \<^verbatim>\<open>'null'\<close>.
\<close>

definition show_code :: "int option \<Rightarrow> string" where
  "show_code code = (case code of None \<Rightarrow> ''null'' | Some c \<Rightarrow> show_int c)"

text \<open>
  \<^verbatim>\<open>String.prototype.toLowerCase()\<close>. A string is its UTF-8 bytes; it is ASCII when no
  byte has the top bit set. On an ASCII string the method maps each of the 26 capital
  letters to its small letter and leaves every other character as it is. On a string
  with a character outside ASCII the result follows the Unicode case tables of the
  runtime (an accented capital, the Kelvin sign, the dotted capital I): the tables are
  not part of the repository, so that result is a parameter of the model,
  \<open>unicode_lower\<close>.
\<close>

definition is_ascii :: "string \<Rightarrow> bool" where
  "is_ascii s = list_all (\<lambda>c. \<not> digit7 c) s"

definition lower_char :: "char \<Rightarrow> char" where
  "lower_char c =
     (case map_of (zip ''ABCDEFGHIJKLMNOPQRSTUVWXYZ'' ''abcdefghijklmnopqrstuvwxyz'') c of
        None \<Rightarrow> c
      | Some l \<Rightarrow> l)"

definition toLowerCase :: "(string \<Rightarrow> string) \<Rightarrow> string \<Rightarrow> string" where
  "toLowerCase unicode_lower s = (if is_ascii s then map lower_char s else unicode_lower s)"

text \<open>
  \<^verbatim>\<open>a || b\<close> on a request field that is a string or missing: the empty string and
  \<^verbatim>\<open>undefined\<close> are both falsy.
\<close>

definition or_default :: "string option \<Rightarrow> string \<Rightarrow> string" where
  "or_default field d = (case field of None \<Rightarrow> d | Some s \<Rightarrow> if s = [] then d else s)"

section \<open>Temp file names (lines 39-45, 72, 150)\<close>

text \<open>
  \<^verbatim>\<open>path.join(dir, name)\<close> (POSIX): the non-empty arguments are joined by the separator
  and the result is normalised. Normalising walks the segments between separators: an
  empty segment and \<^verbatim>\<open>.\<close> are dropped, \<^verbatim>\<open>..\<close> removes the segment before it (at the
  start of a relative path it is kept, at the root it is dropped), any other segment is
  kept. A leading separator and a trailing separator are kept, and an empty result is
  \<^verbatim>\<open>.\<close> (or \<^verbatim>\<open>/\<close> for an absolute path).
\<close>

fun split_sep :: "string \<Rightarrow> string list" where
  "split_sep [] = [[]]"
| "split_sep (c # cs) =
     (if c = CHR ''/'' then [] # split_sep cs
      else (case split_sep cs of [] \<Rightarrow> [[c]] | seg # segs \<Rightarrow> (c # seg) # segs))"

text \<open>One segment against the segments kept so far (the last kept one first).\<close>

fun norm_step :: "bool \<Rightarrow> string list \<Rightarrow> string \<Rightarrow> string list" where
  "norm_step allowAboveRoot kept seg =
     (if seg = [] \<or> seg = ''.'' then kept
      else if seg = ''..'' then
        (case kept of
           [] \<Rightarrow> if allowAboveRoot then [''..''] else []
         | seg0 # below \<Rightarrow>
             if seg0 = ''..'' then (if allowAboveRoot then ''..'' # kept else kept) else below)
      else seg # kept)"

fun join_sep :: "string list \<Rightarrow> string" where
  "join_sep [] = []"
| "join_sep [seg] = seg"
| "join_sep (seg # segs) = seg @ ''/'' @ join_sep segs"

definition path_normalize :: "string \<Rightarrow> string" where
  "path_normalize p =
     (if p = [] then ''.''
      else
        (let isAbsolute = (hd p = CHR ''/'');
             trailing = (last p = CHR ''/'');
             body = join_sep (rev (foldl (norm_step (\<not> isAbsolute)) [] (split_sep p)))
         in if body = [] then (if isAbsolute then ''/'' else if trailing then ''./'' else ''.'')
            else (if isAbsolute then ''/'' else []) @ body @ (if trailing then ''/'' else [])))"

definition path_join :: "string \<Rightarrow> string \<Rightarrow> string" where
  "path_join dir name =
     (if dir = [] then path_normalize name
      else if name = [] then path_normalize dir
      else path_normalize (dir @ ''/'' @ name))"

text \<open>
  \<^verbatim>\<open>`upload-${Date.now()}-${Math.floor(Math.random()*10000)}.${ext}`\<close> and the same
  with \<^verbatim>\<open>out-\<close>: the clock reading and the random draw are inputs of the model.
\<close>

definition temp_name :: "string \<Rightarrow> nat \<Rightarrow> nat \<Rightarrow> string \<Rightarrow> string" where
  "temp_name prefix now rnd ext = prefix @ show_nat now @ ''-'' @ show_nat rnd @ ''.'' @ ext"

definition upload_path :: "string \<Rightarrow> nat \<Rightarrow> nat \<Rightarrow> string \<Rightarrow> string" where
  "upload_path tmpDir now rnd ext = path_join tmpDir (temp_name ''upload-'' now rnd ext)"

definition out_path :: "string \<Rightarrow> nat \<Rightarrow> nat \<Rightarrow> string \<Rightarrow> string" where
  "out_path tmpDir now rnd ext = path_join tmpDir (temp_name ''out-'' now rnd ext)"

type_synonym fsys = "string \<rightharpoonup> string"

text \<open>
  \<^verbatim>\<open>writeTempFile(buffer, ext)\<close>: writes the buffer under the fresh name and returns the
  path. The write itself is taken to succeed.
\<close>

definition writeTempFile :: "string \<Rightarrow> nat \<Rightarrow> nat \<Rightarrow> string \<Rightarrow> string \<Rightarrow> fsys \<Rightarrow> string \<times> fsys" where
  "writeTempFile tmpDir now rnd buffer ext fs =
     (let filePath = upload_path tmpDir now rnd ext in (filePath, fs(filePath \<mapsto> buffer)))"

text \<open>
  \<^verbatim>\<open>(originalname || 'input').split('.').pop()\<close>: what follows the last dot, or the
  whole name when it has no dot.
\<close>

definition inputExt :: "string \<Rightarrow> string" where
  "inputExt originalname =
     rev (takeWhile (\<lambda>c. c \<noteq> CHR ''.'') (rev (or_default (Some originalname) ''input'')))"

section \<open>Preset resolution (lines 65, 79-87)\<close>

text \<open>
  \<^verbatim>\<open>resMap\<close> is an object literal, and \<^verbatim>\<open>resMap[quality]\<close> is a JavaScript property
  read: it finds the six own properties, and it also finds the members every object
  literal inherits from \<^verbatim>\<open>Object.prototype\<close>. Those are functions (and, for
  \<^verbatim>\<open>__proto__\<close>, the prototype object): truthy values with no \<^verbatim>\<open>h\<close> and no
  \<^verbatim>\<open>br\<close>. Any other key reads \<^verbatim>\<open>undefined\<close>.
\<close>

datatype jsval = Undefined | Entry nat string | Inherited string

definition resMap_entries :: "(string \<times> nat \<times> string) list" where
  "resMap_entries =
     [(''240p'', 240, ''400k''),
      (''360p'', 360, ''800k''),
      (''480p'', 480, ''1500k''),
      (''720p'', 720, ''3000k''),
      (''1080p'', 1080, ''5000k''),
      (''1440p'', 1440, ''8000k'')]"

definition object_prototype_keys :: "string list" where
  "object_prototype_keys =
     [''constructor'', ''__defineGetter__'', ''__defineSetter__'', ''hasOwnProperty'',
      ''__lookupGetter__'', ''__lookupSetter__'', ''isPrototypeOf'',
      ''propertyIsEnumerable'', ''toString'', ''valueOf'', ''__proto__'',
      ''toLocaleString'']"

definition resMap :: "string \<Rightarrow> jsval" where
  "resMap key =
     (case map_of resMap_entries key of
        Some (h, br) \<Rightarrow> Entry h br
      | None \<Rightarrow> if key \<in> set object_prototype_keys then Inherited key else Undefined)"

text \<open>\<^verbatim>\<open>const quality = req.body.quality || '720p'\<close> (line 65).\<close>

definition quality_of :: "string option \<Rightarrow> string" where
  "quality_of field = or_default field ''720p''"

text \<open>\<^verbatim>\<open>const res = resMap[quality] || resMap['720p']\<close> (line 87).\<close>

definition resolve :: "string \<Rightarrow> jsval" where
  "resolve quality = (case resMap quality of Undefined \<Rightarrow> resMap ''720p'' | v \<Rightarrow> v)"

section \<open>Argument vectors (lines 76-93, 153-157)\<close>

text \<open>
  An element of the argument array is a string, or \<^verbatim>\<open>undefined\<close> when a missing
  property was pushed. \<^verbatim>\<open>`scale=-2:${res.h}`\<close> prints a missing \<^verbatim>\<open>h\<close> as
  \<^verbatim>\<open>undefined\<close>.
\<close>

datatype arg = Str string | Undef

definition scale_filter :: "jsval \<Rightarrow> string" where
  "scale_filter res =
     ''scale=-2:'' @ (case res of Entry h br \<Rightarrow> show_nat h | _ \<Rightarrow> ''undefined'')"

definition bitrate_arg :: "jsval \<Rightarrow> arg" where
  "bitrate_arg res = (case res of Entry h br \<Rightarrow> Str br | _ \<Rightarrow> Undef)"

definition transcode_args :: "string \<Rightarrow> string \<Rightarrow> jsval \<Rightarrow> arg list" where
  "transcode_args inputPath outPath res =
     [Str ''-y'', Str ''-i'', Str inputPath]
     @ [Str ''-vf'', Str (scale_filter res)]
     @ [Str ''-b:v'', bitrate_arg res]
     @ [Str ''-c:v'', Str ''libx264'', Str ''-preset'', Str ''medium'']
     @ [Str ''-c:a'', Str ''aac'', Str ''-b:a'', Str ''128k'']
     @ [Str outPath]"

text \<open>\<^verbatim>\<open>const format = (req.body.format || 'mp3').toLowerCase()\<close> (line 146).\<close>

definition audio_format :: "(string \<Rightarrow> string) \<Rightarrow> string option \<Rightarrow> string" where
  "audio_format unicode_lower field = toLowerCase unicode_lower (or_default field ''mp3'')"

definition audio_args :: "string \<Rightarrow> string \<Rightarrow> string \<Rightarrow> arg list" where
  "audio_args inputPath outPath format =
     [Str ''-y'', Str ''-i'', Str inputPath, Str ''-vn'']
     @ (if format = ''mp3'' then [Str ''-acodec'', Str ''libmp3lame'', Str ''-q:a'', Str ''2'', Str outPath]
        else if format = ''wav'' then
          [Str ''-acodec'', Str ''pcm_s16le'', Str ''-ar'', Str ''44100'', Str ''-ac'', Str ''2'', Str outPath]
        else if format = ''ogg'' then [Str ''-acodec'', Str ''libvorbis'', Str ''-q:a'', Str ''5'', Str outPath]
        else [Str ''-c:a'', Str ''copy'', Str outPath])"

section \<open>The job state and the effects of the handlers\<close>

text \<open>
  A response is what \<^verbatim>\<open>res.status(..)\<close>, \<^verbatim>\<open>res.type(..)\<close> and \<^verbatim>\<open>res.send(..)\<close> put on
  the wire: the status (200 unless set), the content type when the code sets one, and the
  body.
\<close>

record response =
  status :: nat
  ctype :: "string option"
  body :: string

datatype js_error = TypeError | ENOENT

text \<open>
  What the identifier \<^verbatim>\<open>res\<close> denotes where a handler uses it. In \<^verbatim>\<open>/extract-audio\<close>
  and in the \<^verbatim>\<open>catch\<close> block of \<^verbatim>\<open>/transcode\<close> it is the parameter of the route
  callback, the HTTP response. Inside the \<^verbatim>\<open>try\<close> block of \<^verbatim>\<open>/transcode\<close> line 87
  declares \<^verbatim>\<open>const res = resMap[quality] || resMap['720p']\<close>; the declaration is scoped
  to that block, the \<^verbatim>\<open>close\<close> listener (lines 111-134) is written inside it, and so
  every \<^verbatim>\<open>res\<close> of the listener is the value of line 87. That value has no
  \<^verbatim>\<open>status\<close>, \<^verbatim>\<open>type\<close> or \<^verbatim>\<open>send\<close> member, and calling a missing member throws
  a \<^verbatim>\<open>TypeError\<close>.
\<close>

datatype res_ref = HttpResponse | Line87 jsval

record job =
  fs :: fsys
  inputPath :: string
  outPath :: string
  args :: "arg list"
  timer :: "nat option"
  timedOut :: bool
  killed :: bool
  sent :: "response list"
  console :: "string list"
  uncaught :: "js_error option"

text \<open>
  Console output of the listeners is recorded by the fixed text of its first argument.
  The logging before \<^verbatim>\<open>spawn\<close> and \<^verbatim>\<open>console.error(err)\<close> of the outer \<^verbatim>\<open>catch\<close>
  blocks print no fixed text and change nothing else; they are left out.
\<close>

definition log_line :: "string \<Rightarrow> job \<Rightarrow> job" where
  "log_line msg st = st\<lparr>console := console st @ [msg]\<rparr>"

text \<open>
  \<^verbatim>\<open>try { fs.unlinkSync(p); } catch(e){}\<close>: the file is gone afterwards, and a missing
  file is not an error.
\<close>

definition unlink_quiet :: "string \<Rightarrow> job \<Rightarrow> job" where
  "unlink_quiet p st = st\<lparr>fs := (fs st)(p := None)\<rparr>"

text \<open>
  \<^verbatim>\<open>res.status(code).send(text)\<close> and \<^verbatim>\<open>res.type(t); res.send(data)\<close>. The result is
  the exception (with nothing sent) or the state after sending.
\<close>

definition status_send :: "res_ref \<Rightarrow> nat \<Rightarrow> string \<Rightarrow> job \<Rightarrow> js_error + job" where
  "status_send res code text st =
     (case res of
        HttpResponse \<Rightarrow> Inr (st\<lparr>sent := sent st @ [\<lparr>status = code, ctype = None, body = text\<rparr>]\<rparr>)
      | Line87 v \<Rightarrow> Inl TypeError)"

definition type_send :: "res_ref \<Rightarrow> string \<Rightarrow> string \<Rightarrow> job \<Rightarrow> js_error + job" where
  "type_send res t data st =
     (case res of
        HttpResponse \<Rightarrow> Inr (st\<lparr>sent := sent st @ [\<lparr>status = 200, ctype = Some t, body = data\<rparr>]\<rparr>)
      | Line87 v \<Rightarrow> Inl TypeError)"

text \<open>
  An exception that leaves a listener is caught by nobody: the state keeps what the
  listener did before the throw, and the exception is recorded.
\<close>

definition escapes :: "job \<Rightarrow> js_error + job \<Rightarrow> job" where
  "escapes before r = (case r of Inl e \<Rightarrow> before\<lparr>uncaught := Some e\<rparr> | Inr st \<Rightarrow> st)"

text \<open>\<^verbatim>\<open>fs.readFileSync(p)\<close>: the bytes, or the exception for a missing file.\<close>

definition readFileSync :: "string \<Rightarrow> job \<Rightarrow> js_error + string" where
  "readFileSync p st = (case fs st p of None \<Rightarrow> Inl ENOENT | Some data \<Rightarrow> Inr data)"

section \<open>The listeners of /transcode (lines 97-134)\<close>

text \<open>The timer callback (lines 99-103), run only while the timer is armed.\<close>

definition transcode_on_timeout :: "job \<Rightarrow> job" where
  "transcode_on_timeout st =
     (if timer st = None then st
      else log_line ''FFmpeg timeout after 5 minutes''
             (st\<lparr>timer := None, timedOut := True, killed := True\<rparr>))"

text \<open>The \<^verbatim>\<open>error\<close> listener (lines 106-109).\<close>

definition transcode_on_error :: "job \<Rightarrow> job" where
  "transcode_on_error st = log_line ''ffmpeg spawn error'' (st\<lparr>timer := None\<rparr>)"

text \<open>
  The inner \<^verbatim>\<open>try\<close> of the \<^verbatim>\<open>close\<close> listener (lines 123-129): read the output,
  send it, then remove both files.
\<close>

definition transcode_success :: "res_ref \<Rightarrow> job \<Rightarrow> js_error + job" where
  "transcode_success res st =
     (case readFileSync (outPath st) st of
        Inl e \<Rightarrow> Inl e
      | Inr fileData \<Rightarrow>
          (case type_send res ''video/mp4'' fileData st of
             Inl e \<Rightarrow> Inl e
           | Inr st' \<Rightarrow> Inr (unlink_quiet (outPath st') (unlink_quiet (inputPath st') st'))))"

text \<open>The \<^verbatim>\<open>close\<close> listener (lines 111-134), with \<^verbatim>\<open>res\<close> as its scope binds it.\<close>

definition transcode_on_close :: "res_ref \<Rightarrow> int option \<Rightarrow> job \<Rightarrow> job" where
  "transcode_on_close res code st0 =
     (let st = st0\<lparr>timer := None\<rparr> in
      if timedOut st then
        (let st1 = unlink_quiet (inputPath st) st in
         escapes st1 (status_send res 500 ''Transcoding timed out (took more than 5 minutes)'' st1))
      else if code \<noteq> Some 0 then
        (let st1 = unlink_quiet (inputPath st) (log_line ''FFmpeg exited with code'' st) in
         escapes st1 (status_send res 500 (''FFmpeg error code '' @ show_code code) st1))
      else
        (case transcode_success res st of
           Inr st' \<Rightarrow> st'
         | Inl e \<Rightarrow>
             (let st1 = log_line ''Error reading output file'' st in
              escapes st1 (status_send res 500 ''Error reading output file'' st1))))"

section \<open>The listeners of /extract-audio (lines 159-173)\<close>

definition audio_on_error :: "job \<Rightarrow> job" where
  "audio_on_error st = log_line ''ffmpeg spawn error'' st"

definition audio_on_close :: "res_ref \<Rightarrow> string \<Rightarrow> int option \<Rightarrow> job \<Rightarrow> job" where
  "audio_on_close res format code st =
     (if code \<noteq> Some 0 then
        (let st1 = unlink_quiet (inputPath st) st in
         escapes st1
           (status_send res 500 (''Audio extraction failed (ffmpeg error code '' @ show_code code @ '')'') st1))
      else
        (case readFileSync (outPath st) st of
           Inl e \<Rightarrow> escapes st (Inl e)
         | Inr fileData \<Rightarrow>
             (case type_send res (''audio/'' @ format) fileData st of
                Inl e \<Rightarrow> escapes st (Inl e)
              | Inr st' \<Rightarrow> unlink_quiet (outPath st') (unlink_quiet (inputPath st') st'))))"

section \<open>What the runtime delivers to a job\<close>

text \<open>
  After \<^verbatim>\<open>spawn\<close> the code only reacts to what the runtime delivers: bytes on the
  encoder's stderr, the timer firing, an \<^verbatim>\<open>error\<close> event, the \<^verbatim>\<open>close\<close> event with
  the exit code. The encoder writing (part of) its output file is the one effect of the
  child process on the state. A job is run on the list of these, in the order they
  happen; once an exception has left a listener nothing more is handled.
\<close>

datatype event = Stderr string | EncoderWrites string | TimerFires | ErrorEvent | Close "int option"

definition encoder_writes :: "string \<Rightarrow> job \<Rightarrow> job" where
  "encoder_writes data st = st\<lparr>fs := (fs st)(outPath st \<mapsto> data)\<rparr>"

fun transcode_step :: "res_ref \<Rightarrow> event \<Rightarrow> job \<Rightarrow> job" where
  "transcode_step res (Stderr d) st = log_line ''ffmpeg:'' st"
| "transcode_step res (EncoderWrites data) st = encoder_writes data st"
| "transcode_step res TimerFires st = transcode_on_timeout st"
| "transcode_step res ErrorEvent st = transcode_on_error st"
| "transcode_step res (Close code) st = transcode_on_close res code st"

text \<open>\<^verbatim>\<open>/extract-audio\<close> sets no timer, so a firing timer has no callback to run.\<close>

fun audio_step :: "res_ref \<Rightarrow> string \<Rightarrow> event \<Rightarrow> job \<Rightarrow> job" where
  "audio_step res format (Stderr d) st = log_line ''ffmpeg:'' st"
| "audio_step res format (EncoderWrites data) st = encoder_writes data st"
| "audio_step res format TimerFires st = st"
| "audio_step res format ErrorEvent st = audio_on_error st"
| "audio_step res format (Close code) st = audio_on_close res format code st"

fun deliver :: "(event \<Rightarrow> job \<Rightarrow> job) \<Rightarrow> event list \<Rightarrow> job \<Rightarrow> job" where
  "deliver step [] st = st"
| "deliver step (e # es) st = (if uncaught st \<noteq> None then st else deliver step es (step e st))"

section \<open>The two routes\<close>

text \<open>
  The inputs of a request that the routes read, and the readings of the environment:
  the temp directory, the clock and the random draw at each of the two allocations,
  whether \<^verbatim>\<open>spawn\<close> throws on the spot, and the runtime's lowercasing of strings that
  are not ASCII.
\<close>

record upload =
  originalname :: string
  buffer :: string

record request =
  req_file :: "upload option"
  req_quality :: "string option"
  req_format :: "string option"

record env =
  tmpDir :: string
  now_in :: nat
  rnd_in :: nat
  now_out :: nat
  rnd_out :: nat
  spawn_throws :: bool
  unicode_lower :: "string \<Rightarrow> string"

text \<open>
  Lines 69-72 and 147-150: stage the input, allocate the output path. The state before
  \<^verbatim>\<open>spawn\<close>: no timer, nothing sent.
\<close>

definition staged :: "env \<Rightarrow> upload \<Rightarrow> string \<Rightarrow> fsys \<Rightarrow> job" where
  "staged e f format fs0 =
     (let (inPath, fs1) = writeTempFile (tmpDir e) (now_in e) (rnd_in e) (buffer f) (inputExt (originalname f)) fs0
      in \<lparr>fs = fs1, inputPath = inPath,
          outPath = out_path (tmpDir e) (now_out e) (rnd_out e) format,
          args = [], timer = None, timedOut = False, killed = False,
          sent = [], console = [], uncaught = None\<rparr>)"

text \<open>
  The outer \<^verbatim>\<open>catch\<close> blocks (lines 135-140, 174-179). They lie outside the
  \<^verbatim>\<open>try\<close> block, so their \<^verbatim>\<open>res\<close> is the HTTP response.
\<close>

definition catch_block :: "string \<Rightarrow> job \<Rightarrow> job" where
  "catch_block text st =
     (let st1 = unlink_quiet (outPath st) (unlink_quiet (inputPath st) st)
      in escapes st1 (status_send HttpResponse 500 text st1))"

text \<open>
  \<^verbatim>\<open>/transcode\<close> for a request that carries a file (lines 64-140): the state after the
  events \<open>evs\<close>. The timer is armed with \<^verbatim>\<open>5 * 60 * 1000\<close> milliseconds right after
  \<^verbatim>\<open>spawn\<close>.
\<close>

definition transcode_job :: "env \<Rightarrow> upload \<Rightarrow> string option \<Rightarrow> fsys \<Rightarrow> event list \<Rightarrow> job" where
  "transcode_job e f qfield fs0 evs =
     (let st0 = staged e f ''mp4'' fs0;
          res = resolve (quality_of qfield);
          st1 = st0\<lparr>args := transcode_args (inputPath st0) (outPath st0) res\<rparr>
      in if spawn_throws e then catch_block ''Transcoding failed.'' st1
         else deliver (transcode_step (Line87 res)) evs (st1\<lparr>timer := Some (5 * 60 * 1000)\<rparr>))"

text \<open>\<^verbatim>\<open>/extract-audio\<close> for a request that carries a file (lines 146-179).\<close>

definition audio_job :: "env \<Rightarrow> upload \<Rightarrow> string option \<Rightarrow> fsys \<Rightarrow> event list \<Rightarrow> job" where
  "audio_job e f ffield fs0 evs =
     (let format = audio_format (unicode_lower e) ffield;
          st0 = staged e f format fs0;
          st1 = st0\<lparr>args := audio_args (inputPath st0) (outPath st0) format\<rparr>
      in if spawn_throws e then catch_block ''Audio extraction failed.'' st1
         else deliver (audio_step HttpResponse format) evs st1)"

text \<open>
  The routes themselves: without a file they answer 400 before any job exists
  (lines 63, 145).
\<close>

definition no_file :: response where
  "no_file = \<lparr>status = 400, ctype = None, body = ''No file uploaded''\<rparr>"

definition transcode :: "env \<Rightarrow> request \<Rightarrow> fsys \<Rightarrow> event list \<Rightarrow> response + job" where
  "transcode e req fs0 evs =
     (case req_file req of
        None \<Rightarrow> Inl no_file
      | Some f \<Rightarrow> Inr (transcode_job e f (req_quality req) fs0 evs))"

definition extract_audio :: "env \<Rightarrow> request \<Rightarrow> fsys \<Rightarrow> event list \<Rightarrow> response + job" where
  "extract_audio e req fs0 evs =
     (case req_file req of
        None \<Rightarrow> Inl no_file
      | Some f \<Rightarrow> Inr (audio_job e f (req_format req) fs0 evs))"

section \<open>Example inputs\<close>

text \<open>
  The example requests name ASCII formats only, so the example environment's
  \<open>unicode_lower\<close> is never consulted (\<open>ascii_format_ignores_unicode_lower\<close> below).
\<close>

definition example_env :: env where
  "example_env = \<lparr>tmpDir = ''/tmp'', now_in = 1700000000000, rnd_in = 4242,
                   now_out = 1700000000007, rnd_out = 17, spawn_throws = False,
                   unicode_lower = id\<rparr>"

definition example_upload :: upload where
  "example_upload = \<lparr>originalname = ''clip.mov'', buffer = ''AAAA''\<rparr>"

definition other_upload :: upload where
  "other_upload = \<lparr>originalname = ''clip.mov'', buffer = ''BBBB''\<rparr>"

section \<open>Notions used in the proofs\<close>

text \<open>What follows the last separator of a path, and a segment that normalising keeps.\<close>

definition last_seg :: "string \<Rightarrow> string" where
  "last_seg p = rev (takeWhile (\<lambda>c. c \<noteq> CHR ''/'') (rev p))"

definition plain :: "string \<Rightarrow> bool" where
  "plain g = (g \<noteq> ''.'' \<and> g \<noteq> ''..'')"

section \<open>Decimal printing\<close>

lemma digit_char_inj: "a < 10 \<Longrightarrow> b < 10 \<Longrightarrow> digit_char a = digit_char b \<Longrightarrow> a = b"
  unfolding digit_char_def by (simp add: nth_eq_iff_index_eq)

lemma digit_char_in: "d < 10 \<Longrightarrow> digit_char d \<in> set ''0123456789''"
  unfolding digit_char_def by (rule nth_mem) simp

lemma show_nat_nonempty: "show_nat n \<noteq> []"
  by (subst show_nat.simps) simp

lemma show_nat_digits: "set (show_nat n) \<subseteq> set ''0123456789''"
proof (induction n rule: show_nat.induct)
  case (1 n)
  show ?case
  proof (cases "n < 10")
    case True
    then show ?thesis using digit_char_in [of n] by (subst show_nat.simps) simp
  next
    case False
    have "n mod 10 < 10" by simp
    then have "digit_char (n mod 10) \<in> set ''0123456789''" by (rule digit_char_in)
    with False "1.IH" show ?thesis by (subst show_nat.simps) simp
  qed
qed

lemma show_nat_inj: "show_nat m = show_nat n \<Longrightarrow> m = n"
proof (induction m arbitrary: n rule: show_nat.induct)
  case (1 m)
  show ?case
  proof (cases "m < 10")
    case m: True
    show ?thesis
    proof (cases "n < 10")
      case True
      with m "1.prems" show ?thesis
        by (simp add: show_nat.simps [of m] show_nat.simps [of n] digit_char_inj)
    next
      case False
      with m "1.prems" show ?thesis
        using show_nat_nonempty [of "n div 10"]
        by (simp add: show_nat.simps [of m] show_nat.simps [of n])
    qed
  next
    case m: False
    show ?thesis
    proof (cases "n < 10")
      case True
      with m "1.prems" show ?thesis
        using show_nat_nonempty [of "m div 10"]
        by (simp add: show_nat.simps [of m] show_nat.simps [of n])
    next
      case False
      with m "1.prems" have eq: "show_nat (m div 10) = show_nat (n div 10)"
        and d: "digit_char (m mod 10) = digit_char (n mod 10)"
        by (simp_all add: show_nat.simps [of m] show_nat.simps [of n])
      from "1.IH" [OF m eq] have q: "m div 10 = n div 10" .
      from d have r: "m mod 10 = n mod 10" by (intro digit_char_inj) simp_all
      from q r show ?thesis by (metis div_mult_mod_eq)
    qed
  qed
qed

lemma split_at_sep:
  "c \<notin> set xs \<Longrightarrow> c \<notin> set ys \<Longrightarrow> xs @ c # r = ys @ c # s \<Longrightarrow> xs = ys \<and> r = s"
proof (induction xs arbitrary: ys)
  case Nil
  then show ?case by (cases ys) auto
next
  case (Cons x xs)
  then show ?case by (cases ys) auto
qed

lemma temp_name_eq_iff:
  "(temp_name p t1 r1 e1 = temp_name p t2 r2 e2) = (t1 = t2 \<and> r1 = r2 \<and> e1 = e2)"
proof
  assume "temp_name p t1 r1 e1 = temp_name p t2 r2 e2"
  then have eq: "show_nat t1 @ CHR ''-'' # (show_nat r1 @ CHR ''.'' # e1)
               = show_nat t2 @ CHR ''-'' # (show_nat r2 @ CHR ''.'' # e2)"
    by (simp add: temp_name_def)
  have nd: "CHR ''-'' \<notin> set (show_nat n)" "CHR ''.'' \<notin> set (show_nat n)" for n
    using show_nat_digits [of n] by auto
  from split_at_sep [OF nd(1) nd(1) eq]
  have a: "show_nat t1 = show_nat t2"
    and b: "show_nat r1 @ CHR ''.'' # e1 = show_nat r2 @ CHR ''.'' # e2"
    by simp_all
  from split_at_sep [OF nd(2) nd(2) b] have c: "show_nat r1 = show_nat r2" and d: "e1 = e2"
    by simp_all
  from a c d show "t1 = t2 \<and> r1 = r2 \<and> e1 = e2" by (simp add: show_nat_inj)
next
  assume "t1 = t2 \<and> r1 = r2 \<and> e1 = e2"
  then show "temp_name p t1 r1 e1 = temp_name p t2 r2 e2" by simp
qed

section \<open>Definitions unfolded in the proofs\<close>

lemmas handler_defs =
  transcode_on_close_def transcode_on_error_def transcode_on_timeout_def transcode_success_def
  audio_on_close_def audio_on_error_def encoder_writes_def
  status_send_def type_send_def escapes_def readFileSync_def unlink_quiet_def log_line_def

lemmas job_defs =
  transcode_job_def audio_job_def staged_def writeTempFile_def catch_block_def

lemmas example_defs = example_env_def example_upload_def other_upload_def

section \<open>Normalised paths: an input path is never an output path\<close>

lemma split_sep_nonempty: "split_sep p \<noteq> []"
  by (induction p) (auto split: list.splits)

lemma split_sep_append: "split_sep (a @ CHR ''/'' # b) = split_sep a @ split_sep b"
  by (induction a) (auto split: list.splits simp: split_sep_nonempty)

lemma split_sep_prefix:
  "CHR ''/'' \<notin> set u \<Longrightarrow> split_sep (u @ x) = (u @ hd (split_sep x)) # tl (split_sep x)"
  using split_sep_nonempty [of x]
  by (induction u) (auto split: list.splits)

lemma split_sep_chars: "g \<in> set (split_sep p) \<Longrightarrow> set g \<subseteq> set p - {CHR ''/''}"
proof (induction p arbitrary: g)
  case Nil
  then show ?case by simp
next
  case (Cons c cs)
  obtain h t where ht: "split_sep cs = h # t"
    using split_sep_nonempty [of cs] by (cases "split_sep cs") auto
  have h: "set h \<subseteq> set cs - {CHR ''/''}" and t: "\<And>k. k \<in> set t \<Longrightarrow> set k \<subseteq> set cs - {CHR ''/''}"
    using Cons.IH ht by auto
  show ?case
  proof (cases "c = CHR ''/''")
    case True
    with Cons.prems ht have "g = [] \<or> g = h \<or> g \<in> set t" by auto
    with h t show ?thesis by auto
  next
    case False
    with Cons.prems ht have "g = c # h \<or> g \<in> set t" by auto
    with h t False show ?thesis by auto
  qed
qed

lemma split_sep_single: "CHR ''/'' \<notin> set p \<Longrightarrow> split_sep p = [p]"
  using split_sep_prefix [of p "[]"] by simp

lemma foldl_plain:
  "list_all plain gs \<Longrightarrow> foldl (norm_step a) st gs = rev (filter (\<lambda>g. g \<noteq> []) gs) @ st"
  by (induction gs arbitrary: st) (auto simp: plain_def)

lemma join_sep_snoc: "join_sep (gs @ [g]) = (if gs = [] then g else join_sep gs @ CHR ''/'' # g)"
  by (induction gs rule: join_sep.induct) auto

lemma takeWhile_snoc_stop: "\<not> P c \<Longrightarrow> takeWhile P (xs @ [c]) = takeWhile P xs"
  by (induction xs) auto

lemma takeWhile_until: "c \<notin> set xs \<Longrightarrow> takeWhile (\<lambda>x. x \<noteq> c) (xs @ c # ys) = xs"
  by (induction xs) auto

lemma takeWhile_whole: "c \<notin> set xs \<Longrightarrow> takeWhile (\<lambda>x. x \<noteq> c) xs = xs"
  by (induction xs) auto

lemma last_seg_join:
  "CHR ''/'' \<notin> set g \<Longrightarrow> last_seg (join_sep (rev (g # st))) = g"
  by (simp add: last_seg_def join_sep_snoc takeWhile_until takeWhile_whole)

lemma last_seg_abs: "last_seg (CHR ''/'' # p) = last_seg p"
  by (simp add: last_seg_def takeWhile_snoc_stop)

lemma last_seg_trailing: "last_seg (p @ ''/'') = []"
  by (simp add: last_seg_def)


lemma last_seg_normalize:
  assumes p: "p \<noteq> []"
    and st: "foldl (norm_step (hd p \<noteq> CHR ''/'')) [] (split_sep p) = g # st"
    and g: "g \<noteq> []" "CHR ''/'' \<notin> set g"
  shows "last_seg (path_normalize p) = (if last p = CHR ''/'' then [] else g)"
proof -
  let ?body = "join_sep (rev (g # st))"
  have b: "?body \<noteq> []" using g(1) by (simp add: join_sep_snoc)
  have n: "path_normalize p = (if hd p = CHR ''/'' then ''/'' else []) @ ?body @ (if last p = CHR ''/'' then ''/'' else [])"
    using p st b by (simp add: path_normalize_def Let_def)
  show ?thesis
  proof (cases "last p = CHR ''/''")
    case True
    then show ?thesis using last_seg_trailing [of "(if hd p = CHR ''/'' then ''/'' else []) @ ?body"]
      by (simp add: n)
  next
    case False
    then show ?thesis using last_seg_join [OF g(2), of st]
      by (simp add: n last_seg_abs)
  qed
qed


lemma last_seg_path_join:
  assumes n: "name \<noteq> []" "hd name \<noteq> CHR ''/''"
    and pl: "list_all plain (split_sep name)"
    and ne: "filter (\<lambda>g. g \<noteq> []) (split_sep name) \<noteq> []"
  shows "last_seg (path_join dir name) =
           (if last name = CHR ''/'' then [] else last (filter (\<lambda>g. g \<noteq> []) (split_sep name)))"
proof -
  let ?F = "filter (\<lambda>g. g \<noteq> []) (split_sep name)"
  let ?g = "last ?F"
  have gF: "?g \<in> set ?F" using ne by (rule last_in_set)
  then have g1: "?g \<noteq> []" and g2: "CHR ''/'' \<notin> set ?g"
    using split_sep_chars [of ?g name] by auto
  have F: "rev ?F = ?g # rev (butlast ?F)"
    using ne by (metis append_butlast_last_id rev_append append_Cons append_Nil rev_singleton_conv)
  show ?thesis
  proof (cases "dir = []")
    case True
    then have j: "path_join dir name = path_normalize name" by (simp add: path_join_def)
    have "foldl (norm_step (hd name \<noteq> CHR ''/'')) [] (split_sep name) = ?g # rev (butlast ?F)"
      using foldl_plain [OF pl, of "hd name \<noteq> CHR ''/''" "[]"] F by simp
    from last_seg_normalize [OF n(1) this g1 g2] show ?thesis by (simp add: j)
  next
    case False
    let ?p = "dir @ CHR ''/'' # name"
    have j: "path_join dir name = path_normalize ?p" using False n by (simp add: path_join_def)
    have l: "last ?p = last name" using n by simp
    obtain st where st: "foldl (norm_step (hd ?p \<noteq> CHR ''/'')) [] (split_sep dir) = st" by simp
    have "foldl (norm_step (hd ?p \<noteq> CHR ''/'')) [] (split_sep ?p) = ?g # (rev (butlast ?F) @ st)"
      using foldl_plain [OF pl, of "hd ?p \<noteq> CHR ''/''" st] F st by (simp add: split_sep_append)
    from last_seg_normalize [OF _ this g1 g2] show ?thesis by (simp add: j l)
  qed
qed

lemma show_nat_no_sep: "CHR ''/'' \<notin> set (show_nat n)" "CHR ''.'' \<notin> set (show_nat n)"
  using show_nat_digits [of n] by auto

lemma last_seg_out_path:
  assumes "CHR ''/'' \<notin> set x"
  shows "last_seg (out_path d t r x) = temp_name ''out-'' t r x"
proof -
  let ?n = "temp_name ''out-'' t r x"
  have ns: "CHR ''/'' \<notin> set ?n" using assms show_nat_no_sep by (simp add: temp_name_def)
  then have sp: "split_sep ?n = [?n]" by (rule split_sep_single)
  have n: "?n \<noteq> []" "hd ?n \<noteq> CHR ''/''" by (simp_all add: temp_name_def)
  have nd: "?n \<noteq> ''.''" "?n \<noteq> ''..''" by (simp_all add: temp_name_def)
  have pl: "list_all plain (split_sep ?n)" unfolding sp using nd by (simp add: plain_def)
  have ne: "filter (\<lambda>g. g \<noteq> []) (split_sep ?n) \<noteq> []" unfolding sp using n by simp
  have la: "last ?n \<noteq> CHR ''/''" using ns n(1) last_in_set by metis
  have "last_seg (path_join d ?n) = last (filter (\<lambda>g. g \<noteq> []) [?n])"
    using last_seg_path_join [OF n pl ne, of d] la unfolding sp by simp
  then show ?thesis using n by (simp add: out_path_def)
qed

lemma last_seg_upload_path:
  assumes "CHR ''.'' \<notin> set x"
  shows "last_seg (upload_path d t r x) = [] \<or> CHR ''.'' \<notin> set (last_seg (upload_path d t r x))
         \<or> hd (last_seg (upload_path d t r x)) = CHR ''u''"
proof -
  let ?u = "''upload-'' @ show_nat t @ ''-'' @ show_nat r @ ''.''"
  let ?n = "temp_name ''upload-'' t r x"
  have nu: "?n = ?u @ x" by (simp add: temp_name_def)
  have us: "CHR ''/'' \<notin> set ?u" using show_nat_no_sep by simp
  have sp: "split_sep ?n = (?u @ hd (split_sep x)) # tl (split_sep x)"
    unfolding nu using us by (rule split_sep_prefix)
  have tl: "g \<in> set (tl (split_sep x)) \<Longrightarrow> CHR ''.'' \<notin> set g" for g
    using split_sep_chars [of g x] assms list.set_sel(2) [OF split_sep_nonempty, of g x] by auto
  have n: "?n \<noteq> []" "hd ?n \<noteq> CHR ''/''" by (simp_all add: temp_name_def)
  have pl: "list_all plain (split_sep ?n)"
    unfolding sp using tl [of "''.''"] tl [of "''..''"] by (auto simp: plain_def list_all_iff)
  have ne: "filter (\<lambda>g. g \<noteq> []) (split_sep ?n) \<noteq> []" unfolding sp by simp
  let ?F = "filter (\<lambda>g. g \<noteq> []) (split_sep ?n)"
  have "last ?F \<in> set ?F" using ne by (rule last_in_set)
  then have "last ?F = ?u @ hd (split_sep x) \<or> last ?F \<in> set (tl (split_sep x))"
    unfolding sp by auto
  then have "hd (last ?F) = CHR ''u'' \<or> CHR ''.'' \<notin> set (last ?F)"
    using tl by auto
  with last_seg_path_join [OF n pl ne, of d] show ?thesis
    by (auto simp: upload_path_def)
qed

lemma upload_path_not_out_path:
  fixes x x' d :: string and t r t' r' :: nat
  assumes "CHR ''.'' \<notin> set x" "CHR ''/'' \<notin> set x'"
  shows "upload_path d t r x \<noteq> out_path d t' r' x'"
proof
  assume eq: "upload_path d t r x = out_path d t' r' x'"
  let ?o = "temp_name ''out-'' t' r' x'"
  have o: "last_seg (upload_path d t r x) = ?o"
    using last_seg_out_path [OF assms(2), of d t' r'] eq by simp
  have "?o \<noteq> []" "CHR ''.'' \<in> set ?o" "hd ?o = CHR ''o''"
    by (simp_all add: temp_name_def)
  with last_seg_upload_path [OF assms(1), of d t r] o show False by auto
qed

lemma inputExt_no_dot: "CHR ''.'' \<notin> set (inputExt n)"
  using set_takeWhileD [of "CHR ''.''" "\<lambda>c. c \<noteq> CHR ''.''"] by (auto simp: inputExt_def)

lemma input_not_output [simp]:
  "CHR ''/'' \<notin> set fmt \<Longrightarrow> upload_path d t r (inputExt n) \<noteq> out_path d t' r' fmt"
  by (rule upload_path_not_out_path) (simp_all add: inputExt_no_dot)

lemma output_not_input [simp]:
  "CHR ''/'' \<notin> set fmt \<Longrightarrow> out_path d t' r' fmt \<noteq> upload_path d t r (inputExt n)"
  by (rule not_sym, rule upload_path_not_out_path) (simp_all add: inputExt_no_dot)

section \<open>What the listeners keep\<close>

lemma transcode_step_keeps:
  "inputPath (transcode_step r ev st) = inputPath st \<and> outPath (transcode_step r ev st) = outPath st
   \<and> args (transcode_step r ev st) = args st"
  by (cases ev; cases r) (auto simp: handler_defs Let_def split: sum.splits option.splits)

lemma audio_step_keeps:
  "inputPath (audio_step r fmt ev st) = inputPath st \<and> outPath (audio_step r fmt ev st) = outPath st
   \<and> args (audio_step r fmt ev st) = args st \<and> killed (audio_step r fmt ev st) = killed st
   \<and> timer (audio_step r fmt ev st) = timer st \<and> timedOut (audio_step r fmt ev st) = timedOut st"
  by (cases ev; cases r) (auto simp: handler_defs Let_def split: sum.splits option.splits)

lemma deliver_transcode_keeps:
  "inputPath (deliver (transcode_step r) evs st) = inputPath st
   \<and> outPath (deliver (transcode_step r) evs st) = outPath st
   \<and> args (deliver (transcode_step r) evs st) = args st"
  by (induction evs arbitrary: st) (simp_all add: transcode_step_keeps)

lemma deliver_audio_keeps:
  "inputPath (deliver (audio_step r fmt) evs st) = inputPath st
   \<and> outPath (deliver (audio_step r fmt) evs st) = outPath st
   \<and> args (deliver (audio_step r fmt) evs st) = args st
   \<and> killed (deliver (audio_step r fmt) evs st) = killed st
   \<and> timer (deliver (audio_step r fmt) evs st) = timer st
   \<and> timedOut (deliver (audio_step r fmt) evs st) = timedOut st"
  by (induction evs arbitrary: st) (simp_all add: audio_step_keeps)

lemma transcode_job_paths:
  "inputPath (transcode_job e f q fs0 evs) =
     upload_path (tmpDir e) (now_in e) (rnd_in e) (inputExt (originalname f))"
  "outPath (transcode_job e f q fs0 evs) = out_path (tmpDir e) (now_out e) (rnd_out e) ''mp4''"
  "args (transcode_job e f q fs0 evs) =
     transcode_args (upload_path (tmpDir e) (now_in e) (rnd_in e) (inputExt (originalname f)))
       (out_path (tmpDir e) (now_out e) (rnd_out e) ''mp4'') (resolve (quality_of q))"
  by (simp_all add: job_defs Let_def deliver_transcode_keeps escapes_def status_send_def
      log_line_def unlink_quiet_def)

lemma audio_job_paths:
  "inputPath (audio_job e f ff fs0 evs) =
     upload_path (tmpDir e) (now_in e) (rnd_in e) (inputExt (originalname f))"
  "outPath (audio_job e f ff fs0 evs) =
     out_path (tmpDir e) (now_out e) (rnd_out e) (audio_format (unicode_lower e) ff)"
  "args (audio_job e f ff fs0 evs) =
     audio_args (upload_path (tmpDir e) (now_in e) (rnd_in e) (inputExt (originalname f)))
       (out_path (tmpDir e) (now_out e) (rnd_out e) (audio_format (unicode_lower e) ff))
       (audio_format (unicode_lower e) ff)"
  by (simp_all add: job_defs Let_def deliver_audio_keeps escapes_def status_send_def
      log_line_def unlink_quiet_def)

section \<open>Preset resolution and the argument vectors\<close>

lemma resolve_presets:
  "resolve ''240p'' = Entry 240 ''400k''"
  "resolve ''360p'' = Entry 360 ''800k''"
  "resolve ''480p'' = Entry 480 ''1500k''"
  "resolve ''720p'' = Entry 720 ''3000k''"
  "resolve ''1080p'' = Entry 1080 ''5000k''"
  "resolve ''1440p'' = Entry 1440 ''8000k''"
  by (simp_all add: resolve_def resMap_def resMap_entries_def)

lemma quality_missing: "quality_of None = ''720p''" "quality_of (Some []) = ''720p''"
  by (simp_all add: quality_of_def or_default_def)

text \<open>
  A selector that is neither one of the six presets nor a member inherited from
  \<^verbatim>\<open>Object.prototype\<close> resolves to the 720p entry.
\<close>

lemma resolve_unknown:
  "q \<notin> set (map fst resMap_entries) \<Longrightarrow> q \<notin> set object_prototype_keys \<Longrightarrow>
   resolve q = Entry 720 ''3000k''"
  by (simp add: resolve_def resMap_def resMap_entries_def)

text \<open>
  C4. The six presets resolve to their tabulated pairs and a missing or unknown selector
  to the 720p entry (the three lemmas above), but not every other selector string does:
  for the selector \<^verbatim>\<open>constructor\<close> line 87 reads the inherited member, which is truthy,
  so the \<^verbatim>\<open>||\<close> fallback is not taken. The resolved value is not the pair
  (720, 3000k); it has no height and no bitrate, and the argument vector built from it
  carries \<^verbatim>\<open>scale=-2:undefined\<close> and an undefined bitrate.
\<close>

theorem resolve_inherited_key:
  "resolve (quality_of (Some ''constructor'')) = Inherited ''constructor''
   \<and> resolve (quality_of (Some ''constructor'')) \<noteq> Entry 720 ''3000k''
   \<and> transcode_args inp outp (resolve (quality_of (Some ''constructor''))) =
       [Str ''-y'', Str ''-i'', Str inp, Str ''-vf'', Str ''scale=-2:undefined'', Str ''-b:v'', Undef,
        Str ''-c:v'', Str ''libx264'', Str ''-preset'', Str ''medium'',
        Str ''-c:a'', Str ''aac'', Str ''-b:a'', Str ''128k'', Str outp]"
  by (simp add: resolve_def resMap_def resMap_entries_def object_prototype_keys_def quality_of_def
      or_default_def transcode_args_def scale_filter_def bitrate_arg_def)

lemma example_names:
  "temp_name ''upload-'' 1700000000000 4242 ''mov'' = ''upload-1700000000000-4242.mov''"
  "temp_name ''out-'' 1700000000007 17 ''mp4'' = ''out-1700000000007-17.mp4''"
  "temp_name ''out-'' 1700000000007 17 ''mp3'' = ''out-1700000000007-17.mp3''"
  "temp_name ''out-'' 1700000000007 17 ''wav'' = ''out-1700000000007-17.wav''"
  "temp_name ''out-'' 1700000000007 17 ''flac'' = ''out-1700000000007-17.flac''"
  by (simp_all add: temp_name_def show_nat.simps digit_char_def)

lemma example_ext: "inputExt ''clip.mov'' = ''mov''"
  by (simp add: inputExt_def or_default_def)

lemma example_paths:
  "upload_path ''/tmp'' 1700000000000 4242 (inputExt ''clip.mov'') = ''/tmp/upload-1700000000000-4242.mov''"
  "out_path ''/tmp'' 1700000000007 17 ''mp4'' = ''/tmp/out-1700000000007-17.mp4''"
  "out_path ''/tmp'' 1700000000007 17 ''mp3'' = ''/tmp/out-1700000000007-17.mp3''"
  "out_path ''/tmp'' 1700000000007 17 ''wav'' = ''/tmp/out-1700000000007-17.wav''"
  "out_path ''/tmp'' 1700000000007 17 ''flac'' = ''/tmp/out-1700000000007-17.flac''"
  by (simp_all add: upload_path_def out_path_def example_names example_ext path_join_def
      path_normalize_def)

text \<open>
  C5. For every video transcode job whose selector resolves to the profile (h, br), the
  argument vector handed to \<^verbatim>\<open>spawn\<close> is exactly
  \<^verbatim>\<open>-y -i inputPath -vf scale=-2:h -b:v br -c:v libx264 -preset medium -c:a aac -b:a 128k outPath\<close>,
  and the output path always carries the extension \<^verbatim>\<open>mp4\<close>, whatever the input's
  extension. The witness is the preset 480p: height 480, bitrate 1500k.
\<close>

theorem transcode_args_exact:
  "resolve (quality_of q) = Entry h br \<Longrightarrow>
   (let j = transcode_job e f q fs0 evs in
      args j = map Str [''-y'', ''-i'', inputPath j, ''-vf'', ''scale=-2:'' @ show_nat h, ''-b:v'', br,
                        ''-c:v'', ''libx264'', ''-preset'', ''medium'',
                        ''-c:a'', ''aac'', ''-b:a'', ''128k'', outPath j]
      \<and> outPath j = out_path (tmpDir e) (now_out e) (rnd_out e) ''mp4'')"
  by (simp add: transcode_job_paths Let_def transcode_args_def scale_filter_def bitrate_arg_def)

theorem transcode_args_exact_witness:
  "resolve (quality_of (Some ''480p'')) = Entry 480 ''1500k''
   \<and> args (transcode_job example_env example_upload (Some ''480p'') Map.empty [Close (Some 0)]) =
       map Str [''-y'', ''-i'', ''/tmp/upload-1700000000000-4242.mov'', ''-vf'', ''scale=-2:480'',
                ''-b:v'', ''1500k'', ''-c:v'', ''libx264'', ''-preset'', ''medium'',
                ''-c:a'', ''aac'', ''-b:a'', ''128k'', ''/tmp/out-1700000000007-17.mp4'']"
proof -
  have r: "resolve (quality_of (Some ''480p'')) = Entry 480 ''1500k''"
    by (simp add: quality_of_def or_default_def resolve_presets)
  have i: "inputPath (transcode_job example_env example_upload (Some ''480p'') Map.empty [Close (Some 0)])
           = ''/tmp/upload-1700000000000-4242.mov''"
    using example_paths(1) by (simp add: transcode_job_paths example_defs)
  have out: "outPath (transcode_job example_env example_upload (Some ''480p'') Map.empty [Close (Some 0)])
           = ''/tmp/out-1700000000007-17.mp4''"
    using example_paths(2) by (simp add: transcode_job_paths example_defs)
  have s: "show_nat 480 = ''480''"
    by (simp add: show_nat.simps digit_char_def)
  from transcode_args_exact [OF r, of example_env example_upload Map.empty "[Close (Some 0)]"] r
  show ?thesis by (simp add: Let_def i out s)
qed

lemma audio_format_missing:
  "audio_format u None = ''mp3''" "audio_format u (Some []) = ''mp3''"
  by (simp_all add: audio_format_def or_default_def toLowerCase_def is_ascii_def lower_char_def)

lemma audio_format_ascii:
  "s \<noteq> [] \<Longrightarrow> is_ascii s \<Longrightarrow> audio_format u (Some s) = map lower_char s"
  by (simp add: audio_format_def or_default_def toLowerCase_def)

lemma example_formats:
  "audio_format u (Some ''WAV'') = ''wav''"
  "audio_format u (Some ''wav'') = ''wav''"
  "audio_format u (Some ''flac'') = ''flac''"
  by (simp_all add: audio_format_def or_default_def toLowerCase_def is_ascii_def lower_char_def)

text \<open>
  C6. The target of an audio extraction job is the value of \<^verbatim>\<open>format\<close> on line 146: mp3
  when the request names none (or an empty one), and for an ASCII request string its
  lowercase form. The argument vector handed to \<^verbatim>\<open>spawn\<close> starts with
  \<^verbatim>\<open>-y -i inputPath -vn\<close> (no video stream), ends with the output path, which carries the
  target as its extension, and has in between \<^verbatim>\<open>-acodec libmp3lame -q:a 2\<close> for target
  mp3, \<^verbatim>\<open>-acodec pcm_s16le -ar 44100 -ac 2\<close> for wav, \<^verbatim>\<open>-acodec libvorbis -q:a 5\<close> for
  ogg, and for every other target \<^verbatim>\<open>-c:a copy\<close> and nothing else.
\<close>

theorem audio_args_by_format:
  "(let j = audio_job e f ff fs0 evs;
        target = audio_format (unicode_lower e) ff;
        vec = (\<lambda>codec. map Str ([''-y'', ''-i'', inputPath j, ''-vn''] @ codec @ [outPath j]))
    in (target = ''mp3'' \<longrightarrow> args j = vec [''-acodec'', ''libmp3lame'', ''-q:a'', ''2''])
     \<and> (target = ''wav'' \<longrightarrow> args j = vec [''-acodec'', ''pcm_s16le'', ''-ar'', ''44100'', ''-ac'', ''2''])
     \<and> (target = ''ogg'' \<longrightarrow> args j = vec [''-acodec'', ''libvorbis'', ''-q:a'', ''5''])
     \<and> (target \<notin> {''mp3'', ''wav'', ''ogg''} \<longrightarrow> args j = vec [''-c:a'', ''copy''])
     \<and> (ff = None \<or> ff = Some [] \<longrightarrow> target = ''mp3'')
     \<and> (\<forall>s. ff = Some s \<and> s \<noteq> [] \<and> is_ascii s \<longrightarrow> target = map lower_char s)
     \<and> outPath j = out_path (tmpDir e) (now_out e) (rnd_out e) target)"
proof -
  have a: "args (audio_job e f ff fs0 evs) =
      audio_args (inputPath (audio_job e f ff fs0 evs)) (outPath (audio_job e f ff fs0 evs))
        (audio_format (unicode_lower e) ff)"
    by (simp add: audio_job_paths)
  have b: "ff = None \<or> ff = Some [] \<longrightarrow> audio_format (unicode_lower e) ff = ''mp3''"
    by (auto simp: audio_format_missing)
  have c: "\<forall>s. ff = Some s \<and> s \<noteq> [] \<and> is_ascii s \<longrightarrow>
             audio_format (unicode_lower e) ff = map lower_char s"
    by (auto simp: audio_format_ascii)
  have d: "outPath (audio_job e f ff fs0 evs) =
      out_path (tmpDir e) (now_out e) (rnd_out e) (audio_format (unicode_lower e) ff)"
    by (simp add: audio_job_paths)
  from b c d show ?thesis
    unfolding Let_def a by (simp add: audio_args_def)
qed

theorem audio_args_by_format_witness:
  "audio_format (unicode_lower example_env) (Some ''WAV'') = ''wav''
   \<and> args (audio_job example_env example_upload (Some ''WAV'') Map.empty [Close (Some 0)]) =
       map Str [''-y'', ''-i'', ''/tmp/upload-1700000000000-4242.mov'', ''-vn'',
                ''-acodec'', ''pcm_s16le'', ''-ar'', ''44100'', ''-ac'', ''2'',
                ''/tmp/out-1700000000007-17.wav'']
   \<and> audio_format (unicode_lower example_env) (Some ''flac'') \<notin> {''mp3'', ''wav'', ''ogg''}
   \<and> args (audio_job example_env example_upload (Some ''flac'') Map.empty [Close (Some 0)]) =
       map Str [''-y'', ''-i'', ''/tmp/upload-1700000000000-4242.mov'', ''-vn'', ''-c:a'', ''copy'',
                ''/tmp/out-1700000000007-17.flac'']"
proof -
  have i: "inputPath (audio_job example_env example_upload ff Map.empty [Close (Some 0)])
           = ''/tmp/upload-1700000000000-4242.mov''" for ff
    using example_paths(1) by (simp add: audio_job_paths example_defs)
  have t: "tmpDir example_env = ''/tmp''" "now_out example_env = 1700000000007"
    "rnd_out example_env = 17"
    by (simp_all add: example_defs)
  have u: "audio_format (unicode_lower example_env) (Some ''flac'') \<notin> {''mp3'', ''wav'', ''ogg''}"
    by (simp add: example_formats)
  from audio_args_by_format [of example_env example_upload "Some ''WAV''" Map.empty "[Close (Some 0)]"]
    audio_args_by_format [of example_env example_upload "Some ''flac''" Map.empty "[Close (Some 0)]"]
  show ?thesis
    by (simp add: Let_def i t u example_formats example_paths)
qed

section \<open>Temp paths\<close>

text \<open>
  C3. The claim says two temp files allocated in one process lifetime never share a path.
  The clock reading and the random draw are put into the name to keep names apart, but
  the path depends on nothing else: two jobs that upload a file named \<^verbatim>\<open>clip.mov\<close>,
  read the same millisecond and draw the same number get the same input path, and the
  second staging overwrites the first job's input with its own bytes.
\<close>

theorem temp_path_collision:
  "inputPath (transcode_job example_env other_upload None
                (fs (transcode_job example_env example_upload None Map.empty [])) [])
   = inputPath (transcode_job example_env example_upload None Map.empty [])
   \<and> fs (transcode_job example_env other_upload None
            (fs (transcode_job example_env example_upload None Map.empty [])) [])
        (inputPath (transcode_job example_env example_upload None Map.empty []))
     = Some ''BBBB''"
  by (simp add: job_defs Let_def example_defs)

section \<open>Outcomes that answer the caller\<close>

lemma no_file_rejected:
  "req_file req = None \<Longrightarrow> transcode e req fs0 evs = Inl no_file \<and> extract_audio e req fs0 evs = Inl no_file"
  by (simp add: transcode_def extract_audio_def)

lemma show_code_1: "show_code (Some 1) = ''1''"
  by (simp add: show_code_def show_int_def show_nat.simps digit_char_def)

text \<open>
  A non-zero exit code: the response is the 500 that carries the code, and the input file
  is removed.
\<close>

lemma audio_nonzero_exit:
  "c \<noteq> 0 \<Longrightarrow>
   (let j = audio_job (e\<lparr>spawn_throws := False\<rparr>) f ff fs0 [Close (Some c)] in
      sent j = [\<lparr>status = 500, ctype = None,
                 body = ''Audio extraction failed (ffmpeg error code '' @ show_int c @ '')''\<rparr>]
      \<and> fs j (inputPath j) = None \<and> uncaught j = None)"
  by (simp add: job_defs handler_defs Let_def show_code_def)


text \<open>When \<^verbatim>\<open>spawn\<close> throws on the spot, the \<^verbatim>\<open>catch\<close> block answers and removes both files.\<close>

lemma spawn_throws_caught:
  "(let j = transcode_job (e\<lparr>spawn_throws := True\<rparr>) f q fs0 evs in
      sent j = [\<lparr>status = 500, ctype = None, body = ''Transcoding failed.''\<rparr>]
      \<and> fs j (inputPath j) = None \<and> fs j (outPath j) = None)"
  by (simp add: job_defs handler_defs Let_def)

section \<open>Cleanup, timeout and failure paths\<close>

text \<open>
  C1. The claim says both temp files are released on every outcome. The code does not:
  when the encoder of an audio extraction has written part of its output and exits
  with code 1, the listener removes the input file only and the output file stays (for
  every target without a path separator, so that the output path names a file of its
  own); and when a transcode times out after a partial write, the same holds.
\<close>

theorem failed_job_leaves_output:
  "(CHR ''/'' \<notin> set (audio_format (unicode_lower e) ff) \<longrightarrow>
     (let j = audio_job (e\<lparr>spawn_throws := False\<rparr>) f ff fs0 [EncoderWrites data, Close (Some 1)] in
        sent j = [\<lparr>status = 500, ctype = None, body = ''Audio extraction failed (ffmpeg error code 1)''\<rparr>]
        \<and> fs j (inputPath j) = None \<and> fs j (outPath j) = Some data))
   \<and> (let j = transcode_job (e\<lparr>spawn_throws := False\<rparr>) f q fs0 [EncoderWrites data, TimerFires, Close None] in
      fs j (inputPath j) = None \<and> fs j (outPath j) = Some data)"
  by (simp add: job_defs handler_defs Let_def show_code_1)

theorem failed_job_leaves_output_witness:
  "CHR ''/'' \<notin> set (audio_format (unicode_lower example_env) None)
   \<and> sent (audio_job example_env example_upload None Map.empty [EncoderWrites ''ID3'', Close (Some 1)]) =
       [\<lparr>status = 500, ctype = None, body = ''Audio extraction failed (ffmpeg error code 1)''\<rparr>]
   \<and> fs (audio_job example_env example_upload None Map.empty [EncoderWrites ''ID3'', Close (Some 1)])
        ''/tmp/upload-1700000000000-4242.mov'' = None
   \<and> fs (audio_job example_env example_upload None Map.empty [EncoderWrites ''ID3'', Close (Some 1)])
        ''/tmp/out-1700000000007-17.mp3'' = Some ''ID3''"
proof -
  have e: "example_env\<lparr>spawn_throws := False\<rparr> = example_env"
    by (simp add: example_defs)
  have i: "inputPath (audio_job example_env example_upload None Map.empty evs)
           = ''/tmp/upload-1700000000000-4242.mov''" for evs
    using example_paths(1) by (simp add: audio_job_paths example_defs)
  have out: "outPath (audio_job example_env example_upload None Map.empty evs)
           = ''/tmp/out-1700000000007-17.mp3''" for evs
    using example_paths(3) by (simp add: audio_job_paths example_defs audio_format_missing)
  from failed_job_leaves_output [of example_env None example_upload Map.empty "''ID3''"]
  show ?thesis
    by (simp add: Let_def e i out audio_format_missing)
qed

text \<open>
  C2. The claim says every job, audio extraction included, is killed after five minutes
  and reports a timeout. \<^verbatim>\<open>/extract-audio\<close> arms no timer: whatever is delivered, its
  job is never killed and never marked timed out, and while the encoder runs nothing is
  sent. \<^verbatim>\<open>/transcode\<close> arms the timer with 300000 ms and kills the encoder when it
  fires, but the timed-out answer is not sent: its \<^verbatim>\<open>res\<close> is the value of line 87, and
  the call throws.
\<close>

theorem timeout_only_in_transcode:
  "timer (audio_job e f ff fs0 evs) = None
   \<and> killed (audio_job e f ff fs0 evs) = False
   \<and> timedOut (audio_job e f ff fs0 evs) = False
   \<and> sent (audio_job (e\<lparr>spawn_throws := False\<rparr>) f ff fs0 [TimerFires]) = []
   \<and> timer (transcode_job (e\<lparr>spawn_throws := False\<rparr>) f q fs0 []) = Some 300000
   \<and> (let j = transcode_job (e\<lparr>spawn_throws := False\<rparr>) f q fs0 [TimerFires, Close None] in
        killed j \<and> timedOut j \<and> sent j = [] \<and> uncaught j = Some TypeError)"
proof -
  have a: "timer (audio_job e f ff fs0 evs) = None \<and> killed (audio_job e f ff fs0 evs) = False
           \<and> timedOut (audio_job e f ff fs0 evs) = False"
    by (simp add: job_defs Let_def deliver_audio_keeps escapes_def status_send_def log_line_def
        unlink_quiet_def)
  have b: "sent (audio_job (e\<lparr>spawn_throws := False\<rparr>) f ff fs0 [TimerFires]) = []"
    by (simp add: job_defs Let_def)
  have c: "timer (transcode_job (e\<lparr>spawn_throws := False\<rparr>) f q fs0 []) = Some 300000"
    by (simp add: job_defs Let_def)
  have d: "(let j = transcode_job (e\<lparr>spawn_throws := False\<rparr>) f q fs0 [TimerFires, Close None] in
        killed j \<and> timedOut j \<and> sent j = [] \<and> uncaught j = Some TypeError)"
    by (simp add: job_defs handler_defs Let_def)
  from a b c d show ?thesis by simp
qed

text \<open>
  C7. The claim says a non-zero exit code gives a failure result that carries the code.
  For \<^verbatim>\<open>/extract-audio\<close> it does (\<open>audio_nonzero_exit\<close>). For \<^verbatim>\<open>/transcode\<close> with exit
  code 1 the input file is removed, and then \<^verbatim>\<open>res.status(500)\<close> is called on the value
  of line 87: a \<^verbatim>\<open>TypeError\<close> leaves the listener and nothing is sent.
\<close>

theorem transcode_nonzero_exit_no_response:
  "(let j = transcode_job (e\<lparr>spawn_throws := False\<rparr>) f q fs0 [Close (Some 1)] in
      sent j = [] \<and> uncaught j = Some TypeError \<and> fs j (inputPath j) = None)"
  by (simp add: job_defs handler_defs Let_def)

text \<open>
  C8. The claim says a spawn failure reaches the caller as a failure result. The
  \<^verbatim>\<open>error\<close> listeners only write to the console: after the event nothing is sent and the
  input file is still there, in both routes. When the runtime follows the \<^verbatim>\<open>error\<close>
  event with a \<^verbatim>\<open>close\<close> event carrying a negative code, \<^verbatim>\<open>/transcode\<close> still sends
  nothing.
\<close>

theorem spawn_error_event_only_logged:
  "(let j = transcode_job (e\<lparr>spawn_throws := False\<rparr>) f q fs0 [ErrorEvent] in
      sent j = [] \<and> console j = [''ffmpeg spawn error''] \<and> fs j (inputPath j) = Some (buffer f))
   \<and> (let j = transcode_job (e\<lparr>spawn_throws := False\<rparr>) f q fs0 [ErrorEvent, Close (Some (- 2))] in
      sent j = [] \<and> uncaught j = Some TypeError)
   \<and> (let j = audio_job (e\<lparr>spawn_throws := False\<rparr>) f ff fs0 [ErrorEvent] in
      sent j = [] \<and> console j = [''ffmpeg spawn error''] \<and> fs j (inputPath j) = Some (buffer f))"
  by (simp add: job_defs handler_defs Let_def)

text \<open>
  C9. The claim says exit code 0 gives the output bytes with the job kind's content
  type. For \<^verbatim>\<open>/extract-audio\<close> it does (\<open>audio_success\<close>). For \<^verbatim>\<open>/transcode\<close> the
  output is read, then \<^verbatim>\<open>res.type('video/mp4')\<close> is called on the value of line 87 and
  throws; the inner \<^verbatim>\<open>catch\<close> calls \<^verbatim>\<open>res.status(500)\<close> on the same value, which
  throws again. Nothing is sent and both temp files stay.
\<close>

theorem transcode_exit_zero_no_response:
  "(let j = transcode_job (e\<lparr>spawn_throws := False\<rparr>) f q fs0 [EncoderWrites data, Close (Some 0)] in
      sent j = [] \<and> uncaught j = Some TypeError
      \<and> fs j (inputPath j) = Some (buffer f) \<and> fs j (outPath j) = Some data)"
  by (simp add: job_defs handler_defs Let_def)

section \<open>The audio format\<close>

lemma lower_char_idem: "lower_char (lower_char c) = lower_char c"
  by (auto simp: lower_char_def split: if_splits)

lemma ascii_format_ignores_unicode_lower:
  "is_ascii (or_default ff ''mp3'') \<Longrightarrow>
   audio_job (e\<lparr>unicode_lower := u\<rparr>) f ff fs0 evs = audio_job e f ff fs0 evs"
  by (simp add: audio_job_def audio_format_def toLowerCase_def staged_def)




end
